theory Spec2Isabelle
  imports Main
begin

section \<open>Python values\<close>

text \<open>
  A Python \<open>str\<close> is a sequence of Unicode code points. \<open>str\<close> turns a literal of the
  theory into the Python string with the same (Latin-1) code points.
\<close>

type_synonym pystr = "nat list"

definition str :: "string \<Rightarrow> pystr" where
  "str s = map of_char s"

text \<open>
  The values \<open>json.load\<close> produces, and the only ones the application ever holds:
  \<open>None\<close>, booleans, integers, strings, lists, and dictionaries with string keys in
  insertion order. Floating-point numbers are outside the model.
\<close>

datatype pyval =
    PNone
  | PBool bool
  | PInt int
  | PStr pystr
  | PList "pyval list"
  | PDict "(pystr \<times> pyval) list"

type_synonym pydict = "(pystr \<times> pyval) list"

text \<open>\<open>k in d\<close> for a dictionary.\<close>

definition contains :: "pystr \<Rightarrow> pydict \<Rightarrow> bool" where
  "contains k d = (k \<in> set (map fst d))"

text \<open>
  Storing under a key of a dictionary: an existing key keeps its place and takes the
  new value, a new key goes to the end.
\<close>

fun dict_setitem :: "pystr \<Rightarrow> pyval \<Rightarrow> pydict \<Rightarrow> pydict" where
  "dict_setitem k v [] = [(k, v)]"
| "dict_setitem k v (p # ps) = (if fst p = k then (k, v) # ps else p # dict_setitem k v ps)"

text \<open>
  Python's \<open>==\<close> on these values. \<open>bool\<close> is a subclass of \<open>int\<close>, so \<open>True == 1\<close>;
  lists compare by length and then elementwise; dictionaries compare by size and then
  key by key, whatever the insertion order.
\<close>

fun py_eq :: "pyval \<Rightarrow> pyval \<Rightarrow> bool" where
  "py_eq PNone PNone = True"
| "py_eq (PBool a) (PBool b) = (a = b)"
| "py_eq (PBool a) (PInt j) = ((if a then 1 else 0) = j)"
| "py_eq (PInt i) (PBool b) = (i = (if b then 1 else 0))"
| "py_eq (PInt i) (PInt j) = (i = j)"
| "py_eq (PStr s) (PStr t) = (s = t)"
| "py_eq (PList xs) (PList ys) = list_all2 py_eq xs ys"
| "py_eq (PDict a) (PDict b) =
     (length a = length b \<and>
      list_all (\<lambda>(k, v). case map_of b k of None \<Rightarrow> False | Some v' \<Rightarrow> py_eq v v') a)"
| "py_eq _ _ = False"

section \<open>Exceptions, the file and the console\<close>

text \<open>
  The exception classes that can arise in the task store. In Python 3 \<open>IOError\<close> is
  another name of \<open>OSError\<close>; \<open>json.JSONDecodeError\<close>, \<open>UnicodeDecodeError\<close> and
  \<open>UnicodeEncodeError\<close> are subclasses of \<open>ValueError\<close>.
\<close>

datatype exn =
    OSError
  | ValueError
  | JSONDecodeError
  | UnicodeDecodeError
  | UnicodeEncodeError
  | TypeError
  | KeyError
  | RecursionError

abbreviation IOError :: exn where
  "IOError \<equiv> OSError"

text \<open>\<open>isinstance_exn e c\<close>: an exception of class \<open>e\<close> is caught by \<open>except c\<close>.\<close>

fun isinstance_exn :: "exn \<Rightarrow> exn \<Rightarrow> bool" where
  "isinstance_exn JSONDecodeError ValueError = True"
| "isinstance_exn UnicodeDecodeError ValueError = True"
| "isinstance_exn UnicodeEncodeError ValueError = True"
| "isinstance_exn e c = (e = c)"

text \<open>
  \<open>obj[k] = v\<close> and \<open>obj[k]\<close> with a string \<open>k\<close>: only a dictionary supports them,
  and reading a key that is absent raises \<open>KeyError\<close>.
\<close>

fun setitem :: "pyval \<Rightarrow> pystr \<Rightarrow> pyval \<Rightarrow> exn + pyval" where
  "setitem (PDict d) k v = Inr (PDict (dict_setitem k v d))"
| "setitem obj k v = Inl TypeError"

fun getitem :: "pyval \<Rightarrow> pystr \<Rightarrow> exn + pyval" where
  "getitem (PDict d) k = (case map_of d k of None \<Rightarrow> Inl KeyError | Some v \<Rightarrow> Inr v)"
| "getitem obj k = Inl TypeError"

text \<open>
  What \<open>tasks.json\<close> holds, seen through \<open>open(TASKS_FILE, 'r', encoding='utf-8')\<close>
  followed by \<open>json.load\<close>: either a JSON document, which parses to a value, or
  something for which opening, decoding or parsing raises an exception (a directory or
  a file without read permission: \<open>OSError\<close>; bytes that are not UTF-8:
  \<open>UnicodeDecodeError\<close>; text that is not JSON: \<open>JSONDecodeError\<close>). The text of a
  document (indentation, escapes) is below the level of the model: \<open>json.dump\<close> and
  \<open>json.load\<close> are taken as a lossless codec on \<open>pyval\<close>.
\<close>

datatype content = Json pyval | Unreadable exn

text \<open>
  The outcome of \<open>open(TASKS_FILE, 'w', encoding='utf-8')\<close> followed by \<open>json.dump\<close>,
  which the environment decides: the document is written, or an exception is raised and
  the file is left in some state (untouched, truncated, absent).
\<close>

datatype write_outcome = Write_ok | Write_fails exn "content option"

text \<open>The three messages the task store prints.\<close>

datatype message = Load_error exn | Save_error exn | Delete_not_found

section \<open>The state\<close>

text \<open>
  Task dictionaries are mutable objects, shared between \<open>ToDoApp.tasks\<close> and the
  widgets: the store \<open>heap\<close> holds the objects, an address is an index into it, and
  \<open>tasks\<close> is the list of references \<open>self.tasks\<close>. \<open>tasks_file\<close> is \<open>tasks.json\<close>
  (\<open>None\<close> when it does not exist) and \<open>out\<close> the lines printed so far. Widgets are
  not part of the model. A Python reference is always to an existing object; a statement
  that depends on it says so, as \<open>a < length (heap w)\<close>.
\<close>

type_synonym addr = nat

record world =
  heap :: "pyval list"
  tasks :: "addr list"
  tasks_file :: "content option"
  out :: "message list"

text \<open>A call returns a value or raises, and in both cases leaves a state behind.\<close>

datatype 'a result = Returns 'a world | Raises exn world

fun world_of :: "'a result \<Rightarrow> world" where
  "world_of (Returns x w) = w"
| "world_of (Raises e w) = w"

definition py_print :: "message \<Rightarrow> world \<Rightarrow> world" where
  "py_print m w = w\<lparr>out := out w @ [m]\<rparr>"

text \<open>The values of a list of references, and the values of \<open>self.tasks\<close>.\<close>

definition deref :: "world \<Rightarrow> addr list \<Rightarrow> pyval list" where
  "deref w as = map (\<lambda>a. heap w ! a) as"

definition task_values :: "world \<Rightarrow> pyval list" where
  "task_values w = deref w (tasks w)"

section \<open>Loading and saving\<close>

fun json_load :: "content \<Rightarrow> exn + pyval" where
  "json_load (Json v) = Inr v"
| "json_load (Unreadable e) = Inl e"

text \<open>
  \<open>for task in tasks_data\<close>: a list yields its elements, a dictionary its keys, a string
  its characters; \<open>None\<close>, a boolean or a number is not iterable.
\<close>

fun iter :: "pyval \<Rightarrow> exn + pyval list" where
  "iter (PList xs) = Inr xs"
| "iter (PDict d) = Inr (map (\<lambda>p. PStr (fst p)) d)"
| "iter (PStr s) = Inr (map (\<lambda>c. PStr [c]) s)"
| "iter v = Inl TypeError"

text \<open>
  \<open>isinstance(task, dict) and 'description' in task and 'completed' in task\<close>
\<close>

fun valid_task :: "pyval \<Rightarrow> bool" where
  "valid_task (PDict d) = (contains (str ''description'') d \<and> contains (str ''completed'') d)"
| "valid_task v = False"

text \<open>\<open>except (json.JSONDecodeError, IOError, TypeError)\<close>\<close>

definition load_catches :: "exn \<Rightarrow> bool" where
  "load_catches e =
     (isinstance_exn e JSONDecodeError \<or> isinstance_exn e IOError \<or> isinstance_exn e TypeError)"

text \<open>New objects go to the end of the store; the result is their references.\<close>

definition new_object :: "pyval \<Rightarrow> world \<Rightarrow> addr \<times> world" where
  "new_object v w = (length (heap w), w\<lparr>heap := heap w @ [v]\<rparr>)"

definition alloc :: "pyval list \<Rightarrow> world \<Rightarrow> addr list \<times> world" where
  "alloc vs w = ([length (heap w) ..< length (heap w) + length vs], w\<lparr>heap := heap w @ vs\<rparr>)"

text \<open>
  \<open>load_tasks\<close>. Of the parsed entries only the retained ones are kept as objects, the
  others being unreachable once the function returns.
\<close>

definition load_tasks :: "world \<Rightarrow> addr list result" where
  "load_tasks w =
     (case tasks_file w of
        None \<Rightarrow> Returns [] w
      | Some c \<Rightarrow>
          (case (case json_load c of Inl e \<Rightarrow> Inl e | Inr tasks_data \<Rightarrow> iter tasks_data) of
             Inr entries \<Rightarrow>
               (case alloc (filter valid_task entries) w of (valid_tasks, w') \<Rightarrow>
                  Returns valid_tasks w')
           | Inl e \<Rightarrow>
               if load_catches e then Returns [] (py_print (Load_error e) w)
               else Raises e w))"

text \<open>\<open>save_tasks\<close>: only \<open>IOError\<close> is caught.\<close>

definition save_tasks :: "write_outcome \<Rightarrow> addr list \<Rightarrow> world \<Rightarrow> unit result" where
  "save_tasks io ts w =
     (case io of
        Write_ok \<Rightarrow> Returns () (w\<lparr>tasks_file := Some (Json (PList (deref w ts)))\<rparr>)
      | Write_fails e f \<Rightarrow>
          if isinstance_exn e IOError then Returns () (py_print (Save_error e) (w\<lparr>tasks_file := f\<rparr>))
          else Raises e (w\<lparr>tasks_file := f\<rparr>))"

section \<open>The application\<close>

text \<open>\<open>ToDoApp.build\<close>, without the construction of the window.\<close>

definition build :: "world \<Rightarrow> unit result" where
  "build w =
     (case load_tasks w of
        Returns ts w' \<Rightarrow> Returns () (w'\<lparr>tasks := ts\<rparr>)
      | Raises e w' \<Rightarrow> Raises e w')"

definition save_all_tasks :: "write_outcome \<Rightarrow> world \<Rightarrow> unit result" where
  "save_all_tasks io w = save_tasks io (tasks w) w"

text \<open>\<open>ToDoApp.add_new_task\<close>: an empty string is falsy.\<close>

definition add_new_task :: "write_outcome \<Rightarrow> pystr \<Rightarrow> world \<Rightarrow> unit result" where
  "add_new_task io description w =
     (if description \<noteq> [] then
        (case new_object (PDict [(str ''description'', PStr description),
                                 (str ''completed'', PBool False)]) w of
           (task, w') \<Rightarrow> save_all_tasks io (w'\<lparr>tasks := task # tasks w'\<rparr>))
      else Returns () w)"

text \<open>
  \<open>str.isspace\<close> on one code point, and \<open>str.strip()\<close>, which removes the whitespace
  at both ends.
\<close>

definition isspace :: "nat \<Rightarrow> bool" where
  "isspace c =
     ((9 \<le> c \<and> c \<le> 13) \<or> (28 \<le> c \<and> c \<le> 32) \<or> c = 133 \<or> c = 160 \<or> c = 5760 \<or>
      (8192 \<le> c \<and> c \<le> 8202) \<or> c = 8232 \<or> c = 8233 \<or> c = 8239 \<or> c = 8287 \<or> c = 12288)"

definition strip :: "pystr \<Rightarrow> pystr" where
  "strip s = rev (dropWhile isspace (rev (dropWhile isspace s)))"

text \<open>
  \<open>MainLayout.add_task_from_input\<close>, with the text of the input field as argument;
  clearing the field and rebuilding the widgets are left out.
\<close>

definition add_task_from_input :: "write_outcome \<Rightarrow> pystr \<Rightarrow> world \<Rightarrow> unit result" where
  "add_task_from_input io input_text w =
     (let description = strip input_text in
      if description \<noteq> [] then add_new_task io description w else Returns () w)"

text \<open>
  The comparison \<open>list.remove\<close> makes between an element and its argument: the same
  object, or an equal one.
\<close>

definition matches :: "pyval list \<Rightarrow> addr \<Rightarrow> addr \<Rightarrow> bool" where
  "matches h a x = (a = x \<or> py_eq (h ! a) (h ! x))"

text \<open>
  \<open>list.remove(x)\<close> on a list of references: the first element that matches \<open>x\<close>
  goes; \<open>None\<close> stands for \<open>ValueError\<close>.
\<close>

fun list_remove :: "pyval list \<Rightarrow> addr list \<Rightarrow> addr \<Rightarrow> addr list option" where
  "list_remove h [] x = None"
| "list_remove h (a # as) x =
     (if matches h a x then Some as else map_option ((#) a) (list_remove h as x))"

text \<open>
  \<open>ToDoApp.delete_task\<close>. The \<open>try\<close> block spans the removal and the save, so a
  \<open>ValueError\<close> out of the save ends in the same handler.
\<close>

definition delete_task :: "write_outcome \<Rightarrow> addr \<Rightarrow> world \<Rightarrow> unit result" where
  "delete_task io task_data_to_delete w =
     (case list_remove (heap w) (tasks w) task_data_to_delete of
        None \<Rightarrow> Returns () (py_print Delete_not_found w)
      | Some ts \<Rightarrow>
          (case save_all_tasks io (w\<lparr>tasks := ts\<rparr>) of
             Returns u w' \<Rightarrow> Returns () w'
           | Raises e w' \<Rightarrow>
               if isinstance_exn e ValueError then Returns () (py_print Delete_not_found w')
               else Raises e w'))"

text \<open>
  \<open>TaskItem.on_checkbox_active\<close>, with the widget's \<open>task_data\<close> reference as argument:
  the item assignment, the read of \<open>task_data['description']\<close> for the label, the save.
\<close>

definition on_checkbox_active :: "write_outcome \<Rightarrow> addr \<Rightarrow> bool \<Rightarrow> world \<Rightarrow> unit result" where
  "on_checkbox_active io task_data v w =
     (case setitem (heap w ! task_data) (str ''completed'') (PBool v) of
        Inl e \<Rightarrow> Raises e w
      | Inr obj \<Rightarrow>
          (let w' = w\<lparr>heap := (heap w)[task_data := obj]\<rparr>
           in case getitem obj (str ''description'') of
                Inl e \<Rightarrow> Raises e w'
              | Inr label_text \<Rightarrow> save_all_tasks io w'))"

section \<open>Reachable states and their invariant\<close>

text \<open>The state of the process when it starts, with \<open>tasks.json\<close> as it is found.\<close>

definition empty_world :: "content option \<Rightarrow> world" where
  "empty_world f = \<lparr>heap = [], tasks = [], tasks_file = f, out = []\<rparr>"

text \<open>
  The states the application can be in: after \<open>build\<close>, and then after any call of the
  three handlers and of \<open>add_new_task\<close>, on a reference to any existing object and
  with any outcome of the write, whether the call returns or raises.
\<close>

inductive reachable :: "world \<Rightarrow> bool" where
  startup: "reachable (world_of (build (empty_world f)))"
| add_input: "reachable w \<Longrightarrow> reachable (world_of (add_task_from_input io input_text w))"
| add: "reachable w \<Longrightarrow> reachable (world_of (add_new_task io description w))"
| delete: "reachable w \<Longrightarrow> a < length (heap w) \<Longrightarrow> reachable (world_of (delete_task io a w))"
| toggle: "reachable w \<Longrightarrow> a < length (heap w) \<Longrightarrow>
     reachable (world_of (on_checkbox_active io a v w))"

text \<open>
  Every object of the store is a task dictionary with both keys, \<open>self.tasks\<close> refers
  to existing objects, and to no object twice.
\<close>

definition store_ok :: "world \<Rightarrow> bool" where
  "store_ok w =
     (list_all valid_task (heap w) \<and> list_all (\<lambda>a. a < length (heap w)) (tasks w) \<and>
      distinct (tasks w))"

text \<open>
  What it means for a call with result \<open>r\<close> to have saved the sequence it leaves in
  memory: the file is what the write makes of that sequence, the document itself when
  the write succeeds, and then the call returns.
\<close>

definition saved_by :: "write_outcome \<Rightarrow> unit result \<Rightarrow> bool" where
  "saved_by io r =
     (tasks_file (world_of r) =
        (case io of
           Write_ok \<Rightarrow> Some (Json (PList (task_values (world_of r))))
         | Write_fails e f \<Rightarrow> f) \<and>
      (io = Write_ok \<longrightarrow> r = Returns () (world_of r)))"

section \<open>Examples\<close>

text \<open>The task dictionary with the given description and flag.\<close>

definition task :: "string \<Rightarrow> bool \<Rightarrow> pyval" where
  "task d c = PDict [(str ''description'', PStr (str d)), (str ''completed'', PBool c)]"

section \<open>Auxiliary facts\<close>

subsection \<open>Strings and dictionaries\<close>

lemma str_eq_iff [simp]: "str a = str b \<longleftrightarrow> a = b"
proof -
  have "inj (of_char :: char \<Rightarrow> nat)"
    by (rule injI) simp
  then show ?thesis
    unfolding str_def by (simp add: inj_map_eq_map)
qed

lemma str_Nil_iff [simp]: "str s = [] \<longleftrightarrow> s = []"
  by (simp add: str_def)

lemma all_dropWhile: "(\<forall>x\<in>set (dropWhile P s). P x) \<longleftrightarrow> (\<forall>x\<in>set s. P x)"
  by (induction s) auto

text \<open>The stripped string is empty exactly when the string is all whitespace.\<close>

lemma strip_empty_iff: "strip s = [] \<longleftrightarrow> list_all isspace s"
  by (simp add: strip_def list_all_iff dropWhile_eq_Nil_conv all_dropWhile)

text \<open>
  \<open>strip\<close> cuts a run of whitespace off each end and nothing else: what remains
  neither starts nor ends with whitespace.
\<close>

lemma strip_decomp:
  "\<exists>pre post. s = pre @ strip s @ post \<and> list_all isspace pre \<and> list_all isspace post \<and>
     (strip s \<noteq> [] \<longrightarrow> \<not> isspace (hd (strip s)) \<and> \<not> isspace (last (strip s)))"
proof -
  let ?t = "dropWhile isspace s"
  let ?pre = "takeWhile isspace s"
  let ?post = "rev (takeWhile isspace (rev ?t))"
  have "rev (dropWhile isspace r) @ rev (takeWhile isspace r) = rev r" for r :: pystr
    by (simp flip: rev_append)
  from this [of "rev ?t"] have t: "?t = strip s @ ?post"
    by (simp add: strip_def)
  have s: "s = ?pre @ strip s @ ?post"
    using t takeWhile_dropWhile_id [of isspace s] by simp
  have pre: "list_all isspace ?pre"
    by (auto simp: list_all_iff dest: set_takeWhileD)
  have post: "list_all isspace ?post"
    by (auto simp: list_all_iff dest: set_takeWhileD)
  have ends: "\<not> isspace (hd (strip s)) \<and> \<not> isspace (last (strip s))" if ne: "strip s \<noteq> []"
  proof -
    from ne have "?t \<noteq> []"
      by (simp add: strip_empty_iff list_all_iff dropWhile_eq_Nil_conv)
    then have "\<not> isspace (hd ?t)" by (rule hd_dropWhile)
    moreover from ne t have "hd ?t = hd (strip s)"
      by (metis hd_append2)
    moreover have "dropWhile isspace (rev ?t) \<noteq> []"
      using ne by (simp add: strip_def)
    then have "\<not> isspace (hd (dropWhile isspace (rev ?t)))" by (rule hd_dropWhile)
    moreover have "last (strip s) = hd (dropWhile isspace (rev ?t))"
      by (simp add: strip_def last_rev)
    ultimately show ?thesis by simp
  qed
  from s pre post ends show ?thesis by blast
qed

lemma dict_setitem_map_of:
  "map_of (dict_setitem k v d) k' = (if k' = k then Some v else map_of d k')"
  by (induction d) auto

lemma contains_dict_setitem:
  "contains k' (dict_setitem k v d) \<longleftrightarrow> k' = k \<or> contains k' d"
  by (induction d) (auto simp: contains_def)

lemma dict_setitem_restore:
  "map_of d k = Some v \<Longrightarrow> dict_setitem k v (dict_setitem k v' d) = d"
  by (induction d) (auto split: if_splits)

lemma contains_map_of: "contains k d \<Longrightarrow> \<exists>v. map_of d k = Some v"
  by (induction d) (auto simp: contains_def)

lemma valid_task_cases:
  assumes "valid_task obj"
  obtains d where "obj = PDict d" "contains (str ''description'') d"
    "contains (str ''completed'') d"
  using assms by (cases obj) auto

subsection \<open>Saving\<close>

lemma heap_save_tasks [simp]: "heap (world_of (save_tasks io ts w)) = heap w"
  by (simp add: save_tasks_def py_print_def split: write_outcome.splits)

lemma tasks_save_tasks [simp]: "tasks (world_of (save_tasks io ts w)) = tasks w"
  by (simp add: save_tasks_def py_print_def split: write_outcome.splits)

lemma tasks_file_save_tasks:
  "tasks_file (world_of (save_tasks io ts w)) =
     (case io of Write_ok \<Rightarrow> Some (Json (PList (deref w ts))) | Write_fails e f \<Rightarrow> f)"
  by (simp add: save_tasks_def py_print_def split: write_outcome.splits)

subsection \<open>Loading\<close>

lemma load_tasks_list:
  "tasks_file w = Some (Json (PList entries)) \<Longrightarrow>
   load_tasks w =
     Returns [length (heap w) ..< length (heap w) + length (filter valid_task entries)]
       (w\<lparr>heap := heap w @ filter valid_task entries\<rparr>)"
  by (simp add: load_tasks_def alloc_def)

lemma deref_fresh:
  "deref (w\<lparr>heap := heap w @ vs\<rparr>) [length (heap w) ..< length (heap w) + length vs] = vs"
  by (auto simp: deref_def intro!: nth_equalityI)

subsection \<open>Removal and the checkbox handler\<close>

lemma list_remove_None:
  "list_remove h ts x = None \<longleftrightarrow> list_all (\<lambda>a. \<not> matches h a x) ts"
  by (induction ts) auto

lemma list_remove_first:
  "matches h a x \<Longrightarrow> list_all (\<lambda>b. \<not> matches h b x) pre \<Longrightarrow>
   list_remove h (pre @ a # post) x = Some (pre @ post)"
  by (induction pre) auto

text \<open>On a task dictionary the handler neither raises \<open>TypeError\<close> nor \<open>KeyError\<close>.\<close>

lemma on_checkbox_active_valid:
  assumes "heap w ! a = PDict d" and "contains (str ''description'') d"
  shows "on_checkbox_active io a v w =
           save_all_tasks io
             (w\<lparr>heap := (heap w)[a := PDict (dict_setitem (str ''completed'') (PBool v) d)]\<rparr>)"
proof -
  from assms(2) have "contains (str ''description'') (dict_setitem (str ''completed'') (PBool v) d)"
    by (simp add: contains_dict_setitem)
  then obtain t where "map_of (dict_setitem (str ''completed'') (PBool v) d) (str ''description'') = Some t"
    using contains_map_of by blast
  then show ?thesis
    using assms(1) by (simp add: on_checkbox_active_def)
qed

section \<open>Round trip through the file\<close>



section \<open>Adding a task\<close>

text \<open>
  Claim C2. When the text of the input field is empty after stripping, adding changes
  nothing. Otherwise a new dictionary, with the stripped text as description and
  \<open>completed\<close> false, becomes the first element of the sequence, and the sequence is
  saved.
\<close>

theorem add_task_from_input_spec:
  "(strip input_text = [] \<longrightarrow> add_task_from_input io input_text w = Returns () w) \<and>
   (strip input_text \<noteq> [] \<longrightarrow>
      add_task_from_input io input_text w =
        save_all_tasks io
          (w\<lparr>heap := heap w @ [PDict [(str ''description'', PStr (strip input_text)),
                                       (str ''completed'', PBool False)]],
             tasks := length (heap w) # tasks w\<rparr>) \<and>
      (list_all (\<lambda>a. a < length (heap w)) (tasks w) \<longrightarrow>
         task_values (world_of (add_task_from_input io input_text w)) =
           PDict [(str ''description'', PStr (strip input_text)),
                  (str ''completed'', PBool False)] # task_values w))"
proof -
  let ?new = "PDict [(str ''description'', PStr (strip input_text)),
                     (str ''completed'', PBool False)]"
  let ?w' = "w\<lparr>heap := heap w @ [?new], tasks := length (heap w) # tasks w\<rparr>"
  have eq: "strip input_text \<noteq> [] \<Longrightarrow>
      add_task_from_input io input_text w = save_all_tasks io ?w'"
    by (simp add: add_task_from_input_def add_new_task_def new_object_def)
  have vals: "task_values (world_of (save_all_tasks io ?w')) = ?new # task_values w"
    if "list_all (\<lambda>a. a < length (heap w)) (tasks w)"
    using that
    by (simp add: save_all_tasks_def task_values_def deref_def list_all_iff nth_append)
  show ?thesis
    using eq vals by (simp add: add_task_from_input_def)
qed

theorem add_task_from_input_spec_witness:
  "strip (str ''  '') = [] \<and>
   add_task_from_input Write_ok (str ''  '') (empty_world None) = Returns () (empty_world None) \<and>
   strip (str '' Buy milk  '') \<noteq> [] \<and>
   list_all (\<lambda>a. a < length (heap (empty_world None))) (tasks (empty_world None)) \<and>
   task_values (world_of (add_task_from_input Write_ok (str '' Buy milk  '') (empty_world None))) =
     [task ''Buy milk'' False]"
proof -
  have blank: "strip (str ''  '') = []"
    by (simp add: strip_def str_def isspace_def)
  have milk: "strip (str '' Buy milk  '') = str ''Buy milk''"
    by (simp add: strip_def str_def isspace_def)
  have refs: "list_all (\<lambda>a. a < length (heap (empty_world None))) (tasks (empty_world None))"
    by (simp add: empty_world_def)
  from add_task_from_input_spec [of "str ''  ''" Write_ok "empty_world None"]
    add_task_from_input_spec [of "str '' Buy milk  ''" Write_ok "empty_world None"]
    blank milk refs
  show ?thesis
    by (simp add: task_def task_values_def deref_def empty_world_def save_all_tasks_def
        save_tasks_def)
qed

section \<open>Tolerant loading\<close>

text \<open>
  Claim C3 does not hold as stated. A file holding the JSON object \<open>{"not": "a list"}\<close>
  gives the empty sequence, as claimed, but nothing is printed: the loop runs over the
  keys of the object and drops them. And a file whose bytes are not UTF-8 makes
  \<open>load_tasks\<close> raise \<open>UnicodeDecodeError\<close>, which is a \<open>ValueError\<close> and none of the
  three classes the handler names.
\<close>

theorem load_tasks_counterexample:
  "load_tasks (empty_world (Some (Json (PDict [(str ''not'', PStr (str ''a list''))])))) =
     Returns [] (empty_world (Some (Json (PDict [(str ''not'', PStr (str ''a list''))])))) \<and>
   out (empty_world (Some (Json (PDict [(str ''not'', PStr (str ''a list''))])))) = [] \<and>
   load_tasks (empty_world (Some (Unreadable UnicodeDecodeError))) =
     Raises UnicodeDecodeError (empty_world (Some (Unreadable UnicodeDecodeError)))"
  by (simp add: load_tasks_def empty_world_def alloc_def load_catches_def)

text \<open>
  Claim C3, amended. Loading returns the empty sequence and prints nothing when the file
  is missing; it prints the error and returns the empty sequence when reading the file
  raises \<open>JSONDecodeError\<close>, \<open>IOError\<close> or \<open>TypeError\<close>, and when the document is
  \<open>null\<close>, a boolean or an integer, which cannot be iterated; it returns the empty
  sequence and prints nothing when the document is an object or a string.
\<close>

theorem load_tasks_tolerant:
  "(tasks_file w = None \<longrightarrow> load_tasks w = Returns [] w) \<and>
   (tasks_file w = Some (Unreadable e) \<and> e \<in> {JSONDecodeError, IOError, TypeError} \<longrightarrow>
      load_tasks w = Returns [] (py_print (Load_error e) w)) \<and>
   (tasks_file w = Some (Json v) \<and> v \<in> {PNone} \<union> range PBool \<union> range PInt \<longrightarrow>
      load_tasks w = Returns [] (py_print (Load_error TypeError) w)) \<and>
   (tasks_file w = Some (Json (PDict d)) \<longrightarrow> load_tasks w = Returns [] w) \<and>
   (tasks_file w = Some (Json (PStr s)) \<longrightarrow> load_tasks w = Returns [] w)"
proof -
  have nokeys: "filter valid_task (map (\<lambda>p. PStr (fst p)) d) = []"
    by (induction d) auto
  have nochars: "filter valid_task (map (\<lambda>c. PStr [c]) s) = []"
    by (induction s) auto
  have same: "w\<lparr>heap := heap w\<rparr> = w"
    by simp
  show ?thesis
    by (auto simp: load_tasks_def load_catches_def alloc_def nokeys nochars same)
qed

theorem load_tasks_tolerant_witness:
  "load_tasks (empty_world None) = Returns [] (empty_world None) \<and>
   load_tasks (empty_world (Some (Unreadable JSONDecodeError))) =
     Returns [] (py_print (Load_error JSONDecodeError) (empty_world (Some (Unreadable JSONDecodeError)))) \<and>
   load_tasks (empty_world (Some (Json (PInt 5)))) =
     Returns [] (py_print (Load_error TypeError) (empty_world (Some (Json (PInt 5))))) \<and>
   load_tasks (empty_world (Some (Json (PDict [(str ''not'', PStr (str ''a list''))])))) =
     Returns [] (empty_world (Some (Json (PDict [(str ''not'', PStr (str ''a list''))])))) \<and>
   load_tasks (empty_world (Some (Json (PStr (str ''abc''))))) =
     Returns [] (empty_world (Some (Json (PStr (str ''abc'')))))"
  using load_tasks_tolerant [of "empty_world None"]
    load_tasks_tolerant [of "empty_world (Some (Unreadable JSONDecodeError))" JSONDecodeError]
    load_tasks_tolerant [of "empty_world (Some (Json (PInt 5)))" _ "PInt 5"]
    load_tasks_tolerant [of "empty_world (Some (Json (PDict [(str ''not'', PStr (str ''a list''))])))"
      _ _ "[(str ''not'', PStr (str ''a list''))]"]
    load_tasks_tolerant [of "empty_world (Some (Json (PStr (str ''abc''))))" _ _ _ "str ''abc''"]
  by (simp add: empty_world_def)

section \<open>Deleting a task\<close>

text \<open>
  Claim C5. When no element of the sequence matches the given task, deleting prints a
  message and changes nothing else: the sequence and the file stay as they are, and the
  call returns. Otherwise the first matching element is removed, the others keep their
  order, and the sequence is saved: the file becomes what the write makes of it.
\<close>

theorem delete_task_spec:
  "(list_all (\<lambda>a. \<not> matches (heap w) a x) (tasks w) \<longrightarrow>
      delete_task io x w = Returns () (py_print Delete_not_found w)) \<and>
   (tasks w = pre @ a # post \<and> matches (heap w) a x \<and>
    list_all (\<lambda>b. \<not> matches (heap w) b x) pre \<longrightarrow>
      tasks (world_of (delete_task io x w)) = pre @ post \<and>
      heap (world_of (delete_task io x w)) = heap w \<and>
      tasks_file (world_of (delete_task io x w)) =
        (case io of Write_ok \<Rightarrow> Some (Json (PList (deref w (pre @ post))))
         | Write_fails e f \<Rightarrow> f))"
proof -
  have none: "delete_task io x w = Returns () (py_print Delete_not_found w)"
    if "list_all (\<lambda>a. \<not> matches (heap w) a x) (tasks w)"
    using that by (simp add: delete_task_def list_remove_None [symmetric])
  have some: "world_of (delete_task io x w) =
      (case io of Write_ok \<Rightarrow> w\<lparr>tasks := pre @ post,
                        tasks_file := Some (Json (PList (deref w (pre @ post))))\<rparr>
       | Write_fails e f \<Rightarrow>
           if isinstance_exn e IOError then py_print (Save_error e) (w\<lparr>tasks := pre @ post, tasks_file := f\<rparr>)
           else if isinstance_exn e ValueError then py_print Delete_not_found (w\<lparr>tasks := pre @ post, tasks_file := f\<rparr>)
           else w\<lparr>tasks := pre @ post, tasks_file := f\<rparr>)"
    if "tasks w = pre @ a # post" "matches (heap w) a x"
       "list_all (\<lambda>b. \<not> matches (heap w) b x) pre"
    using that list_remove_first [OF that(2,3), of post]
    by (simp add: delete_task_def save_all_tasks_def save_tasks_def deref_def
        split: write_outcome.splits)
  show ?thesis
    using none some
    by (auto simp: py_print_def split: write_outcome.splits)
qed

theorem delete_task_spec_witness:
  "list_all (\<lambda>a. \<not> matches [task ''Buy milk'' False, task ''Call mom'' False, task ''Walk dog'' False] a 2) [1, 0] \<and>
   delete_task Write_ok 2
     \<lparr>heap = [task ''Buy milk'' False, task ''Call mom'' False, task ''Walk dog'' False],
      tasks = [1, 0], tasks_file = None, out = []\<rparr> =
     Returns ()
       \<lparr>heap = [task ''Buy milk'' False, task ''Call mom'' False, task ''Walk dog'' False],
        tasks = [1, 0], tasks_file = None, out = [Delete_not_found]\<rparr> \<and>
   matches [task ''Buy milk'' False, task ''Call mom'' False, task ''Walk dog'' False] 1 1 \<and>
   task_values (world_of (delete_task Write_ok 1
     \<lparr>heap = [task ''Buy milk'' False, task ''Call mom'' False, task ''Walk dog'' False],
      tasks = [1, 0], tasks_file = None, out = []\<rparr>)) = [task ''Buy milk'' False]"
proof -
  let ?h = "[task ''Buy milk'' False, task ''Call mom'' False, task ''Walk dog'' False]"
  let ?w = "\<lparr>heap = ?h, tasks = [1, 0], tasks_file = None, out = []\<rparr>"
  have absent: "list_all (\<lambda>a. \<not> matches ?h a 2) [1, 0]"
    by (simp add: matches_def task_def)
  have present: "matches ?h 1 1"
    by (simp add: matches_def)
  from delete_task_spec [where w = ?w and x = 2 and io = Write_ok]
    delete_task_spec [where w = ?w and pre = "[]" and a = 1 and post = "[0]" and x = 1
      and io = Write_ok]
    absent present
  show ?thesis
    by (simp add: task_values_def deref_def py_print_def)
qed

section \<open>What loading retains\<close>

text \<open>
  Claim C4. When the file holds a JSON list, loading returns exactly those entries, in
  their order, that are dictionaries with both a \<open>description\<close> and a \<open>completed\<close>
  key; the others are dropped, and nothing is printed.
\<close>

theorem load_tasks_filter:
  assumes "tasks_file w = Some (Json (PList entries))"
  shows "\<exists>ts w'. load_tasks w = Returns ts w' \<and>
           deref w' ts = filter valid_task entries \<and>
           out w' = out w \<and> tasks_file w' = tasks_file w \<and> tasks w' = tasks w"
  using assms by (simp add: load_tasks_list deref_fresh)

theorem load_tasks_filter_witness:
  "tasks_file (empty_world (Some (Json (PList
      [task ''x'' False, PDict [(str ''foo'', PStr (str ''bar''))],
       PDict [(str ''description'', PStr (str ''y''))]])))) =
     Some (Json (PList
      [task ''x'' False, PDict [(str ''foo'', PStr (str ''bar''))],
       PDict [(str ''description'', PStr (str ''y''))]])) \<and>
   (\<exists>ts w'. load_tasks (empty_world (Some (Json (PList
      [task ''x'' False, PDict [(str ''foo'', PStr (str ''bar''))],
       PDict [(str ''description'', PStr (str ''y''))]])))) = Returns ts w' \<and>
      deref w' ts = [task ''x'' False] \<and> out w' = [])"
  using load_tasks_filter [of "empty_world (Some (Json (PList
      [task ''x'' False, PDict [(str ''foo'', PStr (str ''bar''))],
       PDict [(str ''description'', PStr (str ''y''))]])))"
      "[task ''x'' False, PDict [(str ''foo'', PStr (str ''bar''))],
       PDict [(str ''description'', PStr (str ''y''))]]"]
  by (auto simp: empty_world_def task_def contains_def)

text \<open>
  Claim C10. Only the presence of the two keys is checked: an entry that is a dictionary
  with both keys is retained whatever the values under them are.
\<close>

theorem load_tasks_key_presence_only:
  assumes "tasks_file w = Some (Json (PList entries))"
    and "PDict d \<in> set entries"
    and "contains (str ''description'') d" and "contains (str ''completed'') d"
  shows "\<exists>ts w'. load_tasks w = Returns ts w' \<and> PDict d \<in> set (deref w' ts)"
  using assms by (simp add: load_tasks_list deref_fresh)

theorem load_tasks_key_presence_only_witness:
  "\<exists>ts w'. load_tasks (empty_world (Some (Json (PList
      [PDict [(str ''description'', PInt 5), (str ''completed'', PStr (str ''yes''))]])))) =
        Returns ts w' \<and>
      PDict [(str ''description'', PInt 5), (str ''completed'', PStr (str ''yes''))]
        \<in> set (deref w' ts)"
  using load_tasks_key_presence_only [of "empty_world (Some (Json (PList
      [PDict [(str ''description'', PInt 5), (str ''completed'', PStr (str ''yes''))]])))"
      "[PDict [(str ''description'', PInt 5), (str ''completed'', PStr (str ''yes''))]]"
      "[(str ''description'', PInt 5), (str ''completed'', PStr (str ''yes''))]"]
  by (simp add: empty_world_def contains_def)

section \<open>Extra fields\<close>





section \<open>Completing a task\<close>

text \<open>
  Claim C6. In a state where \<open>self.tasks\<close> refers to task dictionaries, and to none
  twice, the handler of the checkbox of the task at position \<open>i\<close> sets the \<open>completed\<close>
  field of that task to the given value. The sequence keeps its elements and their
  places, the task keeps every other field, the description among them, and every other
  task stays as it is. When the field held the opposite value before, a second call with
  that value gives back the original sequence.
\<close>

theorem on_checkbox_active_spec:
  assumes "store_ok w" and "i < length (tasks w)" and "tasks w ! i = a"
  shows "tasks (world_of (on_checkbox_active io a v w)) = tasks w \<and>
         length (heap (world_of (on_checkbox_active io a v w))) = length (heap w) \<and>
         getitem (task_values (world_of (on_checkbox_active io a v w)) ! i) (str ''completed'') =
           Inr (PBool v) \<and>
         (\<forall>k. k \<noteq> str ''completed'' \<longrightarrow>
            getitem (task_values (world_of (on_checkbox_active io a v w)) ! i) k =
            getitem (task_values w ! i) k) \<and>
         (\<forall>j < length (tasks w). j \<noteq> i \<longrightarrow>
            task_values (world_of (on_checkbox_active io a v w)) ! j = task_values w ! j) \<and>
         (getitem (task_values w ! i) (str ''completed'') = Inr (PBool (\<not> v)) \<longrightarrow>
            task_values (world_of (on_checkbox_active io' a (\<not> v)
              (world_of (on_checkbox_active io a v w)))) = task_values w)"
proof -
  from assms have a: "a < length (heap w)" and "a \<in> set (tasks w)"
    by (auto simp: store_ok_def list_all_iff)
  with assms(1) have "valid_task (heap w ! a)"
    by (simp add: store_ok_def list_all_iff)
  then obtain d where d: "heap w ! a = PDict d" "contains (str ''description'') d"
    "contains (str ''completed'') d"
    by (rule valid_task_cases)
  let ?d' = "dict_setitem (str ''completed'') (PBool v) d"
  let ?w' = "w\<lparr>heap := (heap w)[a := PDict ?d']\<rparr>"
  let ?r = "world_of (on_checkbox_active io a v w)"
  have r: "on_checkbox_active io a v w = save_all_tasks io ?w'"
    using d(1,2) by (rule on_checkbox_active_valid)
  have h: "heap ?r = (heap w)[a := PDict ?d']" and t: "tasks ?r = tasks w"
    by (simp_all add: r save_all_tasks_def)
  have i: "task_values ?r ! i = PDict ?d'" "task_values w ! i = PDict d"
    using assms a d by (simp_all add: task_values_def deref_def h t)
  have others: "task_values ?r ! j = task_values w ! j" if "j < length (tasks w)" "j \<noteq> i" for j
  proof -
    from that assms have "tasks w ! j \<noteq> a"
      by (auto simp: store_ok_def nth_eq_iff_index_eq)
    then show ?thesis
      using that by (simp add: task_values_def deref_def h t)
  qed
  have undo: "task_values (world_of (on_checkbox_active io' a (\<not> v) ?r)) = task_values w"
    if "getitem (task_values w ! i) (str ''completed'') = Inr (PBool (\<not> v))"
  proof -
    from that i have m: "map_of d (str ''completed'') = Some (PBool (\<not> v))"
      by (simp split: option.splits)
    have "heap ?r ! a = PDict ?d'"
      using a by (simp add: h)
    moreover have "contains (str ''description'') ?d'"
      using d by (simp add: contains_dict_setitem)
    ultimately have "on_checkbox_active io' a (\<not> v) ?r =
        save_all_tasks io'
          (?r\<lparr>heap := (heap ?r)[a := PDict (dict_setitem (str ''completed'') (PBool (\<not> v)) ?d')]\<rparr>)"
      by (rule on_checkbox_active_valid)
    moreover have "(heap ?r)[a := PDict (dict_setitem (str ''completed'') (PBool (\<not> v)) ?d')] = heap w"
      using d(1) a by (simp add: h dict_setitem_restore [OF m] list_update_same_conv)
    ultimately show ?thesis
      by (simp add: task_values_def deref_def save_all_tasks_def t)
  qed
  show ?thesis
    using i others undo
    by (simp add: h t dict_setitem_map_of)
qed

theorem on_checkbox_active_spec_witness:
  "store_ok \<lparr>heap = [task ''Buy milk'' False, task ''Call mom'' False], tasks = [1, 0],
             tasks_file = None, out = []\<rparr> \<and>
   task_values (world_of (on_checkbox_active Write_ok 0 True
      \<lparr>heap = [task ''Buy milk'' False, task ''Call mom'' False], tasks = [1, 0],
       tasks_file = None, out = []\<rparr>)) ! 0 = task ''Call mom'' False \<and>
   getitem (task_values (world_of (on_checkbox_active Write_ok 0 True
      \<lparr>heap = [task ''Buy milk'' False, task ''Call mom'' False], tasks = [1, 0],
       tasks_file = None, out = []\<rparr>)) ! 1) (str ''completed'') = Inr (PBool True) \<and>
   getitem (task_values (world_of (on_checkbox_active Write_ok 0 True
      \<lparr>heap = [task ''Buy milk'' False, task ''Call mom'' False], tasks = [1, 0],
       tasks_file = None, out = []\<rparr>)) ! 1) (str ''description'') = Inr (PStr (str ''Buy milk'')) \<and>
   task_values (world_of (on_checkbox_active Write_ok 0 False
     (world_of (on_checkbox_active Write_ok 0 True
        \<lparr>heap = [task ''Buy milk'' False, task ''Call mom'' False], tasks = [1, 0],
         tasks_file = None, out = []\<rparr>)))) =
     [task ''Call mom'' False, task ''Buy milk'' False]"
proof -
  let ?w = "\<lparr>heap = [task ''Buy milk'' False, task ''Call mom'' False], tasks = [1, 0],
             tasks_file = None, out = []\<rparr>"
  let ?r = "world_of (on_checkbox_active Write_ok 0 True ?w)"
  have ok: "store_ok ?w"
    by (simp add: store_ok_def task_def contains_def)
  have i: "1 < length (tasks ?w)" and a: "tasks ?w ! 1 = 0"
    by simp_all
  note spec = on_checkbox_active_spec [OF ok i a, of Write_ok True Write_ok]
  from spec have completed:
    "getitem (task_values ?r ! 1) (str ''completed'') = Inr (PBool True)"
    by blast
  from spec have "\<forall>k. k \<noteq> str ''completed'' \<longrightarrow>
      getitem (task_values ?r ! 1) k = getitem (task_values ?w ! 1) k"
    by blast
  then have "getitem (task_values ?r ! 1) (str ''description'') =
      getitem (task_values ?w ! 1) (str ''description'')"
    by simp
  then have description:
    "getitem (task_values ?r ! 1) (str ''description'') = Inr (PStr (str ''Buy milk''))"
    by (simp add: task_values_def deref_def task_def)
  from spec have "\<forall>j < length (tasks ?w). j \<noteq> 1 \<longrightarrow>
      task_values ?r ! j = task_values ?w ! j"
    by blast
  then have "task_values ?r ! 0 = task_values ?w ! 0"
    by simp
  then have other: "task_values ?r ! 0 = task ''Call mom'' False"
    by (simp add: task_values_def deref_def)
  have "getitem (task_values ?w ! 1) (str ''completed'') = Inr (PBool (\<not> True))"
    by (simp add: task_values_def deref_def task_def)
  with spec have "task_values (world_of (on_checkbox_active Write_ok 0 (\<not> True) ?r)) =
      task_values ?w"
    by blast
  then have undo: "task_values (world_of (on_checkbox_active Write_ok 0 False ?r)) =
      [task ''Call mom'' False, task ''Buy milk'' False]"
    by (simp add: task_values_def deref_def)
  from ok other completed description undo show ?thesis
    by blast
qed

section \<open>Every mutation saves\<close>

lemma saved_by_save_all_tasks: "saved_by io (save_all_tasks io w)"
  by (simp add: saved_by_def save_all_tasks_def save_tasks_def task_values_def deref_def
      py_print_def split: write_outcome.splits)

text \<open>
  Claim C7. Adding a description that is not empty after stripping, deleting a task that
  is found, and setting the flag of a task dictionary each save the sequence they leave
  in memory before they return: whatever the outcome of the write, the file is what the
  write makes of that sequence, and when the write succeeds the call returns and the
  file holds the document of the current sequence.
\<close>

theorem mutations_save:
  "(strip input_text \<noteq> [] \<longrightarrow> saved_by io (add_task_from_input io input_text w)) \<and>
   (list_remove (heap w) (tasks w) x \<noteq> None \<longrightarrow> saved_by io (delete_task io x w)) \<and>
   (valid_task (heap w ! a) \<longrightarrow> saved_by io (on_checkbox_active io a v w))"
proof (intro conjI impI)
  assume "strip input_text \<noteq> []"
  then show "saved_by io (add_task_from_input io input_text w)"
    by (simp add: add_task_from_input_def add_new_task_def new_object_def
        saved_by_save_all_tasks)
next
  assume "list_remove (heap w) (tasks w) x \<noteq> None"
  then obtain ts where ts: "list_remove (heap w) (tasks w) x = Some ts"
    by blast
  have "saved_by io (save_all_tasks io (w\<lparr>tasks := ts\<rparr>))"
    by (rule saved_by_save_all_tasks)
  then show "saved_by io (delete_task io x w)"
    by (cases "save_all_tasks io (w\<lparr>tasks := ts\<rparr>)")
      (auto simp: delete_task_def ts saved_by_def py_print_def task_values_def deref_def
        split: write_outcome.splits)
next
  assume "valid_task (heap w ! a)"
  then obtain d where "heap w ! a = PDict d" "contains (str ''description'') d"
    by (rule valid_task_cases)
  then show "saved_by io (on_checkbox_active io a v w)"
    by (simp add: on_checkbox_active_valid saved_by_save_all_tasks)
qed

theorem mutations_save_witness:
  "strip (str ''Call mom'') \<noteq> [] \<and>
   tasks_file (world_of (add_task_from_input Write_ok (str ''Call mom'')
     \<lparr>heap = [task ''Buy milk'' False], tasks = [0], tasks_file = None, out = []\<rparr>)) =
     Some (Json (PList [task ''Call mom'' False, task ''Buy milk'' False])) \<and>
   list_remove [task ''Buy milk'' False] [0] 0 \<noteq> None \<and>
   tasks_file (world_of (delete_task Write_ok 0
     \<lparr>heap = [task ''Buy milk'' False], tasks = [0], tasks_file = None, out = []\<rparr>)) =
     Some (Json (PList [])) \<and>
   valid_task ([task ''Buy milk'' False] ! 0) \<and>
   tasks_file (world_of (on_checkbox_active Write_ok 0 True
     \<lparr>heap = [task ''Buy milk'' False], tasks = [0], tasks_file = None, out = []\<rparr>)) =
     Some (Json (PList [task ''Buy milk'' True]))"
proof -
  let ?w = "\<lparr>heap = [task ''Buy milk'' False], tasks = [0], tasks_file = None, out = []\<rparr>"
  note spec = mutations_save [where w = ?w and io = Write_ok and input_text = "str ''Call mom''"
      and x = 0 and a = 0 and v = True]
  have h1: "strip (str ''Call mom'') \<noteq> []"
    by (simp add: strip_def str_def isspace_def)
  have h2: "list_remove [task ''Buy milk'' False] [0] 0 \<noteq> None"
    by (simp add: matches_def)
  have h3: "valid_task ([task ''Buy milk'' False] ! 0)"
    by (simp add: task_def contains_def)
  from spec h1 have "saved_by Write_ok (add_task_from_input Write_ok (str ''Call mom'') ?w)"
    by blast
  then have c1: "tasks_file (world_of (add_task_from_input Write_ok (str ''Call mom'') ?w)) =
      Some (Json (PList (task_values (world_of (add_task_from_input Write_ok (str ''Call mom'') ?w)))))"
    by (simp add: saved_by_def)
  have v1: "task_values (world_of (add_task_from_input Write_ok (str ''Call mom'') ?w)) =
      [task ''Call mom'' False, task ''Buy milk'' False]"
    using h1
    by (simp add: add_task_from_input_def add_new_task_def new_object_def save_all_tasks_def
        task_values_def deref_def task_def strip_def str_def isspace_def)
  from spec h2 have "saved_by Write_ok (delete_task Write_ok 0 ?w)"
    by simp
  then have c2: "tasks_file (world_of (delete_task Write_ok 0 ?w)) =
      Some (Json (PList (task_values (world_of (delete_task Write_ok 0 ?w)))))"
    by (simp add: saved_by_def)
  have v2: "task_values (world_of (delete_task Write_ok 0 ?w)) = []"
    by (simp add: delete_task_def matches_def save_all_tasks_def save_tasks_def task_values_def
        deref_def)
  from spec h3 have "saved_by Write_ok (on_checkbox_active Write_ok 0 True ?w)"
    by simp
  then have c3: "tasks_file (world_of (on_checkbox_active Write_ok 0 True ?w)) =
      Some (Json (PList (task_values (world_of (on_checkbox_active Write_ok 0 True ?w)))))"
    by (simp add: saved_by_def)
  have v3: "task_values (world_of (on_checkbox_active Write_ok 0 True ?w)) =
      [task ''Buy milk'' True]"
    by (simp add: on_checkbox_active_def save_all_tasks_def task_values_def deref_def task_def)
  from h1 h2 h3 c1 c2 c3 show ?thesis
    by (simp only: v1 v2 v3) simp
qed

section \<open>The invariant of the reachable states\<close>

text \<open>Startup establishes \<open>store_ok\<close> and every operation keeps it.\<close>

lemma store_ok_save_tasks [simp]: "store_ok (world_of (save_tasks io ts w)) = store_ok w"
  by (simp add: store_ok_def)

lemma store_ok_py_print [simp]: "store_ok (py_print m w) = store_ok w"
  by (simp add: store_ok_def py_print_def)

lemma store_ok_build: "store_ok (world_of (build (empty_world f)))"
  by (auto simp: build_def load_tasks_def alloc_def store_ok_def empty_world_def py_print_def
      list_all_iff split: option.splits sum.splits content.splits)

lemma store_ok_add_new_task:
  assumes "store_ok w"
  shows "store_ok (world_of (add_new_task io description w))"
proof (cases "description = []")
  case True
  with assms show ?thesis by (simp add: add_new_task_def)
next
  case False
  let ?new = "PDict [(str ''description'', PStr description), (str ''completed'', PBool False)]"
  let ?w' = "w\<lparr>heap := heap w @ [?new], tasks := length (heap w) # tasks w\<rparr>"
  have "valid_task ?new"
    by (simp add: contains_def)
  with assms have "store_ok ?w'"
    by (auto simp: store_ok_def list_all_iff)
  with False show ?thesis
    by (simp add: add_new_task_def new_object_def save_all_tasks_def)
qed

lemma store_ok_add_task_from_input:
  "store_ok w \<Longrightarrow> store_ok (world_of (add_task_from_input io input_text w))"
  by (simp add: add_task_from_input_def Let_def store_ok_add_new_task)

lemma list_remove_Some:
  "list_remove h ts x = Some ts' \<Longrightarrow> set ts' \<subseteq> set ts \<and> (distinct ts \<longrightarrow> distinct ts')"
  by (induction ts arbitrary: ts') (auto split: if_splits)

lemma store_ok_delete_task:
  assumes "store_ok w"
  shows "store_ok (world_of (delete_task io x w))"
proof (cases "list_remove (heap w) (tasks w) x")
  case None
  with assms show ?thesis by (simp add: delete_task_def)
next
  case (Some ts)
  from list_remove_Some [OF Some] assms have "store_ok (w\<lparr>tasks := ts\<rparr>)"
    by (auto simp: store_ok_def list_all_iff)
  then have "store_ok (world_of (save_all_tasks io (w\<lparr>tasks := ts\<rparr>)))"
    by (simp add: save_all_tasks_def)
  with Some show ?thesis
    by (cases "save_all_tasks io (w\<lparr>tasks := ts\<rparr>)") (simp_all add: delete_task_def)
qed

lemma store_ok_on_checkbox_active:
  assumes "store_ok w" and "a < length (heap w)"
  shows "store_ok (world_of (on_checkbox_active io a v w))"
proof -
  from assms have "valid_task (heap w ! a)"
    by (simp add: store_ok_def list_all_iff)
  then obtain d where d: "heap w ! a = PDict d" "contains (str ''description'') d"
    "contains (str ''completed'') d"
    by (rule valid_task_cases)
  let ?obj = "PDict (dict_setitem (str ''completed'') (PBool v) d)"
  have "valid_task ?obj"
    using d by (simp add: contains_dict_setitem)
  moreover have "set ((heap w)[a := ?obj]) \<subseteq> insert ?obj (set (heap w))"
    by (rule set_update_subset_insert)
  ultimately have "store_ok (w\<lparr>heap := (heap w)[a := ?obj]\<rparr>)"
    using assms(1) by (auto simp: store_ok_def list_all_iff)
  then show ?thesis
    by (simp add: on_checkbox_active_valid [OF d(1,2)] save_all_tasks_def)
qed

lemma reachable_store_ok: "reachable w \<Longrightarrow> store_ok w"
  by (induction rule: reachable.induct)
    (simp_all add: store_ok_build store_ok_add_task_from_input store_ok_add_new_task
      store_ok_delete_task store_ok_on_checkbox_active)

text \<open>
  Claim C8. In every state reachable from startup by adding, deleting and setting flags,
  every element of the in-memory sequence is a dictionary with both a \<open>description\<close>
  and a \<open>completed\<close> key.
\<close>

theorem reachable_tasks_have_both_fields:
  assumes "reachable w"
  shows "list_all (\<lambda>t. \<exists>d. t = PDict d \<and> contains (str ''description'') d \<and>
           contains (str ''completed'') d) (task_values w)"
proof -
  from assms have ok: "store_ok w"
    by (rule reachable_store_ok)
  have "\<exists>d. heap w ! a = PDict d \<and> contains (str ''description'') d \<and>
      contains (str ''completed'') d" if "a \<in> set (tasks w)" for a
  proof -
    from ok that have "valid_task (heap w ! a)"
      by (simp add: store_ok_def list_all_iff)
    then show ?thesis
      by (rule valid_task_cases) simp
  qed
  then show ?thesis
    by (simp add: task_values_def deref_def list_all_iff)
qed

theorem reachable_tasks_have_both_fields_witness:
  "reachable
     (world_of (on_checkbox_active Write_ok 0 True
       (world_of (add_task_from_input Write_ok (str ''Buy milk'')
         (world_of (build (empty_world (Some (Json (PList [PDict [(str ''foo'', PInt 1)]])))))))))) \<and>
   list_all (\<lambda>t. \<exists>d. t = PDict d \<and> contains (str ''description'') d \<and>
       contains (str ''completed'') d)
     (task_values
       (world_of (on_checkbox_active Write_ok 0 True
       (world_of (add_task_from_input Write_ok (str ''Buy milk'')
         (world_of (build (empty_world (Some (Json (PList [PDict [(str ''foo'', PInt 1)]])))))))))))"
proof -
  let ?w0 = "world_of (build (empty_world (Some (Json (PList [PDict [(str ''foo'', PInt 1)]])))))"
  let ?w1 = "world_of (add_task_from_input Write_ok (str ''Buy milk'') ?w0)"
  have r1: "reachable ?w1"
    by (intro reachable.add_input reachable.startup)
  have "heap ?w1 = [task ''Buy milk'' False]"
    by (simp add: build_def load_tasks_def alloc_def empty_world_def contains_def
        add_task_from_input_def strip_def str_def isspace_def add_new_task_def new_object_def
        save_all_tasks_def task_def)
  then have "0 < length (heap ?w1)"
    by simp
  with r1 have r: "reachable (world_of (on_checkbox_active Write_ok 0 True ?w1))"
    by (rule reachable.toggle)
  show ?thesis
    by (intro conjI r reachable_tasks_have_both_fields [OF r])
qed

end
